theory Spec2Isabelle
  imports Complex_Main
begin

section \<open>Values of the request body and Python exceptions\<close>

text \<open>
  The service receives \<^verbatim>\<open>payload: Dict[str, Any]\<close>: a decoded JSON object whose values are
  arbitrary JSON values. Python's \<^verbatim>\<open>None\<close> is \<open>JNull\<close>. Floats are modelled as reals
  (rounding, infinities and NaN are not modelled); Python's integers are unbounded.
  A dictionary is an association list read with \<open>map_of\<close>.
\<close>

datatype json =
    JNull
  | JBool bool
  | JInt int
  | JFloat real
  | JStr string
  | JList "json list"
  | JObj "(string \<times> json) list"

datatype exn =
    RuntimeError
  | ModelError
  | TypeError
  | ValueError
  | AttributeError
  | NameError
  | StatisticsError
  | HTTPException nat string

text \<open>\<^verbatim>\<open>d.get(k)\<close> on a dict: the value, or \<^verbatim>\<open>None\<close> when the key is absent.\<close>

definition dict_get :: "(string \<times> json) list \<Rightarrow> string \<Rightarrow> json" where
  "dict_get kvs k = (case map_of kvs k of None \<Rightarrow> JNull | Some v \<Rightarrow> v)"

text \<open>\<^verbatim>\<open>event.get(k)\<close> on an arbitrary decoded value: only a dict has the method.\<close>

fun event_get :: "json \<Rightarrow> string \<Rightarrow> exn + json" where
  "event_get (JObj kvs) k = Inr (dict_get kvs k)"
| "event_get _ k = Inl AttributeError"

text \<open>
  \<^verbatim>\<open>for event in events\<close>: a list yields its items, a dict its keys, a string its
  characters; any other value is not iterable.
\<close>

fun py_iter :: "json \<Rightarrow> exn + json list" where
  "py_iter (JList xs) = Inr xs"
| "py_iter (JObj kvs) = Inr (map (\<lambda>kv. JStr (fst kv)) kvs)"
| "py_iter (JStr s) = Inr (map (\<lambda>c. JStr [c]) s)"
| "py_iter _ = Inl TypeError"

text \<open>
  Keys of the \<^verbatim>\<open>user_scores\<close> dictionary. Python compares and hashes \<^verbatim>\<open>1\<close>, \<^verbatim>\<open>1.0\<close> and
  \<^verbatim>\<open>True\<close> as the same key, so every number is a \<open>KNum\<close>; lists and dicts are unhashable.
\<close>

datatype pykey = KNone | KStr string | KNum real

fun py_hash_key :: "json \<Rightarrow> exn + pykey" where
  "py_hash_key JNull = Inr KNone"
| "py_hash_key (JBool b) = Inr (KNum (if b then 1 else 0))"
| "py_hash_key (JInt n) = Inr (KNum (of_int n))"
| "py_hash_key (JFloat r) = Inr (KNum r)"
| "py_hash_key (JStr s) = Inr (KStr s)"
| "py_hash_key (JList xs) = Inl TypeError"
| "py_hash_key (JObj kvs) = Inl TypeError"

section \<open>Shared state\<close>

type_synonym sample = "int \<times> real"

type_synonym store = "pykey \<rightharpoonup> sample list"

record stats_t =
  ingest_requests :: int
  events_processed :: int
  median_requests :: int
  ingest_latencies :: "real list"

record state =
  user_scores :: store
  stats :: stats_t

definition init_state :: state where
  "init_state =
     \<lparr>user_scores = Map.empty,
      stats = \<lparr>ingest_requests = 0, events_processed = 0, median_requests = 0,
               ingest_latencies = []\<rparr>\<rparr>"

definition ROLLING_WINDOW_SECONDS :: int where
  "ROLLING_WINDOW_SECONDS = 300"

section \<open>The rolling window\<close>

text \<open>
  \<^verbatim>\<open>while dq and dq[0][0] < cutoff: dq.popleft()\<close>: the loop looks at the head only and
  stops at the first head that is not older than the cutoff.
\<close>

fun prune :: "int \<Rightarrow> sample list \<Rightarrow> sample list" where
  "prune cutoff [] = []"
| "prune cutoff (x # xs) = (if fst x < cutoff then prune cutoff xs else x # xs)"

text \<open>
  \<^verbatim>\<open>_update_user_scores\<close>. \<^verbatim>\<open>user_scores[user_id]\<close> on the \<^verbatim>\<open>defaultdict(deque)\<close> hashes the
  key (an unhashable key raises before anything is stored) and creates an empty deque for
  a new key.
\<close>

definition update_user_scores :: "json \<Rightarrow> int \<Rightarrow> real \<Rightarrow> store \<Rightarrow> exn + store" where
  "update_user_scores user_id timestamp score us =
     (case py_hash_key user_id of
        Inl e \<Rightarrow> Inl e
      | Inr k \<Rightarrow>
          (let dq = (case us k of None \<Rightarrow> [] | Some d \<Rightarrow> d) @ [(timestamp, score)];
               cutoff = timestamp - ROLLING_WINDOW_SECONDS
           in Inr (us(k \<mapsto> prune cutoff dq))))"

section \<open>Scoring\<close>

text \<open>
  What lies outside the repository is a parameter: the loaded network applied to a decoded
  \<^verbatim>\<open>features\<close> value (\<open>None\<close> when \<^verbatim>\<open>torch.tensor\<close> or the forward pass raises), and
  Python's \<^verbatim>\<open>int(str)\<close> (\<open>None\<close> when it raises \<^verbatim>\<open>ValueError\<close>). \<open>loaded_model = None\<close> is
  \<^verbatim>\<open>_loaded_model = None\<close>.
\<close>

record env =
  loaded_model :: "(json \<Rightarrow> real option) option"
  int_of_str :: "string \<Rightarrow> int option"

text \<open>
  The module-level \<^verbatim>\<open>try\<close>/\<^verbatim>\<open>except Exception\<close> around the model load. The handler prints
  \<^verbatim>\<open>MODEL_PATH\<close>, which is bound only after the import of \<^verbatim>\<open>create_model\<close> has succeeded.
\<close>

datatype load_outcome =
    ImportRaises
  | LoadRaises
  | Loaded "json \<Rightarrow> real option"

fun startup_model :: "load_outcome \<Rightarrow> exn + (json \<Rightarrow> real option) option" where
  "startup_model ImportRaises = Inl NameError"
| "startup_model LoadRaises = Inr None"
| "startup_model (Loaded m) = Inr (Some m)"

text \<open>
  The module body as a whole: the model load, then the globals \<^verbatim>\<open>user_scores\<close> and
  \<^verbatim>\<open>stats\<close>. \<open>Inl\<close> is an exception that escapes the module body: the import of the module
  fails and there is no service. \<open>parse\<close> is Python's \<^verbatim>\<open>int(str)\<close>.
\<close>

definition startup :: "load_outcome \<Rightarrow> (string \<Rightarrow> int option) \<Rightarrow> exn + env \<times> state" where
  "startup outcome parse =
     (case startup_model outcome of
        Inl e \<Rightarrow> Inl e
      | Inr m \<Rightarrow> Inr (\<lparr>loaded_model = m, int_of_str = parse\<rparr>, init_state))"

text \<open>\<^verbatim>\<open>_predict_sync\<close>.\<close>

definition predict_sync :: "env \<Rightarrow> json \<Rightarrow> exn + real" where
  "predict_sync ev features =
     (case loaded_model ev of
        None \<Rightarrow> Inl RuntimeError
      | Some m \<Rightarrow> (case m features of None \<Rightarrow> Inl ModelError | Some v \<Rightarrow> Inr v))"

text \<open>\<^verbatim>\<open>int(ts)\<close>: a float is truncated towards zero, a list, a dict or \<^verbatim>\<open>None\<close> is a \<^verbatim>\<open>TypeError\<close>.\<close>

fun py_int :: "env \<Rightarrow> json \<Rightarrow> exn + int" where
  "py_int ev (JInt n) = Inr n"
| "py_int ev (JBool b) = Inr (if b then 1 else 0)"
| "py_int ev (JFloat r) = Inr (if 0 \<le> r then \<lfloor>r\<rfloor> else \<lceil>r\<rceil>)"
| "py_int ev (JStr s) = (case int_of_str ev s of None \<Rightarrow> Inl ValueError | Some n \<Rightarrow> Inr n)"
| "py_int ev (JList xs) = Inl TypeError"
| "py_int ev (JObj kvs) = Inl TypeError"
| "py_int ev JNull = Inl TypeError"

section \<open>Ingestion\<close>

text \<open>
  One iteration of the loop of \<^verbatim>\<open>ingest\<close> on the pair of the window store and
  \<^verbatim>\<open>processed_count\<close>. \<open>Inr\<close> is the pair after the iteration (unchanged after
  \<^verbatim>\<open>continue\<close>); \<open>Inl\<close> is an exception that leaves the loop. \<^verbatim>\<open>int(ts)\<close> is evaluated
  before \<^verbatim>\<open>_update_user_scores\<close> is entered and outside the \<^verbatim>\<open>try\<close>.
\<close>

definition ingest_event :: "env \<Rightarrow> json \<Rightarrow> store \<times> int \<Rightarrow> exn + store \<times> int" where
  "ingest_event ev event acc =
     (case event_get event ''user_id'' of Inl e \<Rightarrow> Inl e | Inr user_id \<Rightarrow>
      case event_get event ''timestamp'' of Inl e \<Rightarrow> Inl e | Inr ts \<Rightarrow>
      case event_get event ''features'' of Inl e \<Rightarrow> Inl e | Inr features \<Rightarrow>
        if user_id = JNull \<or> ts = JNull \<or> features = JNull then Inr acc
        else
          (case predict_sync ev features of
             Inl exc \<Rightarrow> Inr acc
           | Inr score \<Rightarrow>
               (case py_int ev ts of Inl e \<Rightarrow> Inl e | Inr t \<Rightarrow>
                case update_user_scores user_id t score (fst acc) of
                  Inl e \<Rightarrow> Inl e
                | Inr us' \<Rightarrow> Inr (us', snd acc + 1))))"

text \<open>The loop: an exception stops it, and the windows written so far stay written.\<close>

fun ingest_loop :: "env \<Rightarrow> json list \<Rightarrow> store \<times> int \<Rightarrow> (exn + int) \<times> store" where
  "ingest_loop ev [] acc = (Inr (snd acc), fst acc)"
| "ingest_loop ev (e # es) acc =
     (case ingest_event ev e acc of
        Inl x \<Rightarrow> (Inl x, fst acc)
      | Inr acc' \<Rightarrow> ingest_loop ev es acc')"

text \<open>
  \<^verbatim>\<open>ingest\<close>, one call run to its end without another request interleaved. \<open>duration\<close> is
  the elapsed time the call measures. The result is the \<^verbatim>\<open>processed\<close> count or the exception
  that ends the request.
\<close>

definition ingest :: "env \<Rightarrow> real \<Rightarrow> (string \<times> json) list \<Rightarrow> state \<Rightarrow> (exn + int) \<times> state" where
  "ingest ev duration payload s =
     (let events = dict_get payload ''events'' in
      if events = JNull then (Inl (HTTPException 400 ''Missing 'events' in request body''), s)
      else
        (let s1 = s\<lparr>stats := (stats s)\<lparr>ingest_requests := ingest_requests (stats s) + 1\<rparr>\<rparr> in
         case py_iter events of
           Inl e \<Rightarrow> (Inl e, s1)
         | Inr evs \<Rightarrow>
             (case ingest_loop ev evs (user_scores s1, 0) of
                (Inl e, us) \<Rightarrow> (Inl e, s1\<lparr>user_scores := us\<rparr>)
              | (Inr processed_count, us) \<Rightarrow>
                  (Inr processed_count,
                   s1\<lparr>user_scores := us,
                      stats := (stats s1)
                        \<lparr>events_processed := events_processed (stats s1) + processed_count,
                         ingest_latencies := ingest_latencies (stats s1) @ [duration]\<rparr>\<rparr>))))"

section \<open>Median and statistics\<close>

text \<open>\<^verbatim>\<open>statistics.median\<close> of the Python standard library.\<close>

definition median :: "real list \<Rightarrow> exn + real" where
  "median data =
     (let d = sort data; n = length d in
      if n = 0 then Inl StatisticsError
      else if n mod 2 = 1 then Inr (d ! (n div 2))
      else (let i = n div 2 in Inr ((d ! (i - 1) + d ! i) / 2)))"

text \<open>
  \<^verbatim>\<open>get_user_median\<close>: \<open>None\<close> is the response \<^verbatim>\<open>{"median": None}\<close>. The path parameter is a
  string, and \<^verbatim>\<open>user_scores.get\<close> does not create an entry.
\<close>

definition get_user_median :: "string \<Rightarrow> state \<Rightarrow> (exn + real option) \<times> state" where
  "get_user_median user_id s =
     (let s1 = s\<lparr>stats := (stats s)\<lparr>median_requests := median_requests (stats s) + 1\<rparr>\<rparr> in
      case user_scores s1 (KStr user_id) of
        None \<Rightarrow> (Inr None, s1)
      | Some dq \<Rightarrow>
          if dq = [] then (Inr None, s1)
          else
            (case median (map snd dq) of
               Inl e \<Rightarrow> (Inl e, s1)
             | Inr m \<Rightarrow> (Inr (Some m), s1)))"

record stats_snapshot =
  snap_ingest_requests :: int
  snap_events_processed :: int
  snap_median_requests :: int
  avg_ingest_latency_seconds :: real

text \<open>\<^verbatim>\<open>get_stats\<close> reads the statistics and changes nothing.\<close>

definition get_stats :: "state \<Rightarrow> stats_snapshot" where
  "get_stats s =
     (let latencies = ingest_latencies (stats s);
          avg_latency =
            (if latencies \<noteq> [] then sum_list latencies / real (length latencies) else 0)
      in \<lparr>snap_ingest_requests = ingest_requests (stats s),
          snap_events_processed = events_processed (stats s),
          snap_median_requests = median_requests (stats s),
          avg_ingest_latency_seconds = avg_latency\<rparr>)"

text \<open>
  The median as the specification words it: the middle value of the sorted scores for an
  odd count, the average of the two middle values for an even count.
\<close>

definition spec_median :: "real list \<Rightarrow> real" where
  "spec_median xs =
     (let ys = sort xs in
      if odd (length ys) then ys ! (length ys div 2)
      else (ys ! (length ys div 2 - 1) + ys ! (length ys div 2)) / 2)"

section \<open>Vocabulary of the claims\<close>

text \<open>
  An item has a field when \<^verbatim>\<open>event.get\<close> yields something other than \<^verbatim>\<open>None\<close>: the code
  cannot tell an absent key from a key bound to null.
\<close>

fun is_obj :: "json \<Rightarrow> bool" where
  "is_obj (JObj kvs) = True"
| "is_obj _ = False"

definition has_fields :: "json \<Rightarrow> bool" where
  "has_fields event =
     (case event of
        JObj kvs \<Rightarrow>
          dict_get kvs ''user_id'' \<noteq> JNull \<and> dict_get kvs ''timestamp'' \<noteq> JNull
          \<and> dict_get kvs ''features'' \<noteq> JNull
      | _ \<Rightarrow> False)"

definition scores_ok :: "env \<Rightarrow> json \<Rightarrow> bool" where
  "scores_ok ev event =
     (case event of
        JObj kvs \<Rightarrow> \<not> isl (predict_sync ev (dict_get kvs ''features''))
      | _ \<Rightarrow> False)"

text \<open>The items the processed count is about: all three fields, and scoring succeeds.\<close>

definition processable :: "env \<Rightarrow> json \<Rightarrow> bool" where
  "processable ev event = (has_fields event \<and> scores_ok ev event)"

text \<open>The timestamp is one \<^verbatim>\<open>int\<close> accepts and the user id can be a dictionary key.\<close>

definition recordable :: "env \<Rightarrow> json \<Rightarrow> bool" where
  "recordable ev event =
     (case event of
        JObj kvs \<Rightarrow>
          \<not> isl (py_int ev (dict_get kvs ''timestamp''))
          \<and> \<not> isl (py_hash_key (dict_get kvs ''user_id''))
      | _ \<Rightarrow> False)"

definition well_formed_item :: "env \<Rightarrow> json \<Rightarrow> bool" where
  "well_formed_item ev event =
     (is_obj event \<and> (if processable ev event then recordable ev event else True))"

text \<open>
  An environment for the examples: a model that scores every input 0.5. No example
  carries a string timestamp, so \<open>int_of_str\<close> is never consulted.
\<close>

definition fixture_env :: env where
  "fixture_env = \<lparr>loaded_model = Some (\<lambda>features. Some (1 / 2)), int_of_str = (\<lambda>s. None)\<rparr>"

section \<open>Properties of the rolling window\<close>

lemma prune_dropWhile: "prune c xs = dropWhile (\<lambda>s. fst s < c) xs"
  by (induction xs) auto

lemma prune_sorted_fresh:
  "sorted (map fst xs) \<Longrightarrow> list_all (\<lambda>s. c \<le> fst s) (prune c xs)"
  by (induction xs) (auto simp: list_all_iff)

lemma prune_snoc_fresh:
  "c \<le> fst x \<Longrightarrow>
     prune c (xs @ [x]) \<noteq> [] \<and> last (prune c (xs @ [x])) = x
     \<and> \<not> fst (hd (prune c (xs @ [x]))) < c"
  by (induction xs) auto

lemma list_all_takeWhile: "list_all P (takeWhile P xs)"
  by (induction xs) auto

text \<open>
  C1. The window invariant asks that after every call each retained sample has a timestamp
  of at least the inserted timestamp minus \<open>ROLLING_WINDOW_SECONDS\<close>, also for events out
  of timestamp order. The code run on the calls at 1000, 500 and 1000 for one new user:
  the loop stops at the head sample (1000, not older than the cutoff 700), so the sample
  at 500 behind it stays in the window although 500 is less than 1000 - 300.
  (\<open>prune_sorted_fresh\<close> is the case the loop does cover: timestamps in arrival order.)
\<close>

theorem update_user_scores_keeps_stale_sample:
  "update_user_scores (JStr ''u'') 1000 1 Map.empty = Inr [KStr ''u'' \<mapsto> [(1000, 1)]]
   \<and> update_user_scores (JStr ''u'') 500 2 [KStr ''u'' \<mapsto> [(1000, 1)]]
       = Inr [KStr ''u'' \<mapsto> [(1000, 1), (500, 2)]]
   \<and> update_user_scores (JStr ''u'') 1000 3 [KStr ''u'' \<mapsto> [(1000, 1), (500, 2)]]
       = Inr [KStr ''u'' \<mapsto> [(1000, 1), (500, 2), (1000, 3)]]
   \<and> (500::int) < 1000 - ROLLING_WINDOW_SECONDS"
  by (simp add: update_user_scores_def ROLLING_WINDOW_SECONDS_def)

text \<open>
  What the code does on every call: with \<open>cutoff\<close> the inserted timestamp minus
  \<open>ROLLING_WINDOW_SECONDS\<close>, the new window is the old window plus the new sample without
  its longest head run of samples older than the cutoff. The inserted sample is always
  kept as the last one and no other user's window changes. For a user \<open>u2\<close> with no
  window, Record at \<open>T\<close> and then at \<open>T + 400\<close> leaves exactly the sample at \<open>T + 400\<close>.
\<close>

lemma update_user_scores_head_run:
  "(let old = (case us (KStr u) of None \<Rightarrow> [] | Some d \<Rightarrow> d);
        cutoff = ts - ROLLING_WINDOW_SECONDS;
        stale = (\<lambda>s. fst s < cutoff);
        win = dropWhile stale (old @ [(ts, sc)])
    in update_user_scores (JStr u) ts sc us = Inr (us(KStr u \<mapsto> win))
       \<and> takeWhile stale (old @ [(ts, sc)]) @ win = old @ [(ts, sc)]
       \<and> list_all stale (takeWhile stale (old @ [(ts, sc)]))
       \<and> win \<noteq> [] \<and> \<not> stale (hd win) \<and> last win = (ts, sc))
   \<and> (us (KStr ''u2'') = None \<longrightarrow>
        (case update_user_scores (JStr ''u2'') T s1 us of
           Inl e \<Rightarrow> False
         | Inr us1 \<Rightarrow>
             update_user_scores (JStr ''u2'') (T + 400) s2 us1
               = Inr (us(KStr ''u2'' \<mapsto> [(T + 400, s2)]))))"
proof -
  have fresh: "ts - ROLLING_WINDOW_SECONDS \<le> fst (ts, sc)"
    by (simp add: ROLLING_WINDOW_SECONDS_def)
  show ?thesis
    using prune_snoc_fresh [OF fresh]
    by (auto simp: Let_def update_user_scores_def prune_dropWhile list_all_takeWhile
        ROLLING_WINDOW_SECONDS_def)
qed

lemma update_user_scores_head_run_example:
  "update_user_scores (JStr ''u2'') 1400 2 [KStr ''u2'' \<mapsto> [(1000, 1)]]
     = Inr [KStr ''u2'' \<mapsto> [(1400, 2)]]
   \<and> update_user_scores (JStr ''u2'') 1000 1 Map.empty = Inr [KStr ''u2'' \<mapsto> [(1000, 1)]]"
  using update_user_scores_head_run
          [where us = "[KStr ''u2'' \<mapsto> [(1000, 1)]]" and u = "''u2''" and ts = 1400 and sc = 2]
        update_user_scores_head_run
          [where us = "Map.empty" and u = "''u2''" and ts = 1000 and sc = 1]
  by (simp add: Let_def ROLLING_WINDOW_SECONDS_def)

text \<open>
  C2. Record is to append the sample and then prune exactly the samples whose timestamp
  is below the inserted timestamp minus \<open>ROLLING_WINDOW_SECONDS\<close>. The code run on the
  window with samples at 1000 and 500 and a Record at 1000: the cutoff is 700, the samples
  below it are exactly the one at 500, and the code prunes nothing, because the loop stops
  at the head (1000). The window is reached through Ingest of the three events in one
  batch. This is the defect of C1 seen from the prune step.
\<close>

theorem update_user_scores_prunes_head_run_only:
  "update_user_scores (JStr ''u'') 1000 3 [KStr ''u'' \<mapsto> [(1000, 1), (500, 2)]]
     = Inr [KStr ''u'' \<mapsto> [(1000, 1), (500, 2), (1000, 3)]]
   \<and> filter (\<lambda>s. \<not> fst s < 1000 - ROLLING_WINDOW_SECONDS) [(1000, 1), (500, 2), (1000, 3 :: real)]
     = [(1000, 1), (1000, 3)]
   \<and> user_scores (snd (ingest fixture_env 0
        [(''events'', JList
           [JObj [(''user_id'', JStr ''u''), (''timestamp'', JInt 1000),
                  (''features'', JList [JFloat (1 / 10), JFloat (2 / 10), JFloat (3 / 10)])],
            JObj [(''user_id'', JStr ''u''), (''timestamp'', JInt 500),
                  (''features'', JList [JFloat (1 / 10), JFloat (2 / 10), JFloat (3 / 10)])],
            JObj [(''user_id'', JStr ''u''), (''timestamp'', JInt 1000),
                  (''features'', JList [JFloat (1 / 10), JFloat (2 / 10), JFloat (3 / 10)])]])]
        init_state)) (KStr ''u'')
     = Some [(1000, 1 / 2), (500, 1 / 2), (1000, 1 / 2)]"
  by (simp add: update_user_scores_def ROLLING_WINDOW_SECONDS_def ingest_def ingest_event_def
      predict_sync_def fixture_env_def dict_get_def init_state_def Let_def)

section \<open>Properties of the median\<close>

lemma median_nonempty: "xs \<noteq> [] \<Longrightarrow> median xs = Inr (spec_median xs)"
proof -
  assume "xs \<noteq> []"
  moreover have "set (sort xs) = set xs" by simp
  ultimately have "sort xs \<noteq> []" by fastforce
  then show ?thesis
    by (simp add: median_def spec_median_def Let_def odd_iff_mod_2_eq_one)
qed

text \<open>
  C3. For every user id, Median answers null exactly when the user has no window or the
  window is empty; otherwise it answers the standard median of the scores in the window
  (\<open>spec_median\<close>: the middle sorted value for an odd count, the average of the two middle
  sorted values for an even count). \<^verbatim>\<open>statistics.median\<close> never raises here.
\<close>

theorem get_user_median_result:
  "fst (get_user_median u s) =
     (case user_scores s (KStr u) of
        None \<Rightarrow> Inr None
      | Some dq \<Rightarrow> if dq = [] then Inr None else Inr (Some (spec_median (map snd dq))))
   \<and> ((fst (get_user_median u s) = Inr None) =
        (user_scores s (KStr u) = None \<or> user_scores s (KStr u) = Some []))"
  by (auto simp: get_user_median_def Let_def median_nonempty split: option.splits)

theorem get_user_median_result_witness:
  "fst (get_user_median ''u''
          (init_state\<lparr>user_scores := [KStr ''u'' \<mapsto> [(1, 3), (2, 1), (3, 2)]]\<rparr>))
     = Inr (Some 2)
   \<and> fst (get_user_median ''u''
          (init_state\<lparr>user_scores := [KStr ''u'' \<mapsto> [(1, 3), (2, 1), (3, 2), (4, 6)]]\<rparr>))
     = Inr (Some (5 / 2))
   \<and> fst (get_user_median ''v''
          (init_state\<lparr>user_scores := [KStr ''u'' \<mapsto> [(1, 3), (2, 1), (3, 2), (4, 6)]]\<rparr>))
     = Inr None
   \<and> fst (get_user_median ''u'' (init_state\<lparr>user_scores := [KStr ''u'' \<mapsto> []]\<rparr>))
     = Inr None"
  using
    get_user_median_result
      [of "''u''" "init_state\<lparr>user_scores := [KStr ''u'' \<mapsto> [(1, 3), (2, 1), (3, 2)]]\<rparr>"]
    get_user_median_result
      [of "''u''" "init_state\<lparr>user_scores := [KStr ''u'' \<mapsto> [(1, 3), (2, 1), (3, 2), (4, 6)]]\<rparr>"]
    get_user_median_result
      [of "''v''" "init_state\<lparr>user_scores := [KStr ''u'' \<mapsto> [(1, 3), (2, 1), (3, 2), (4, 6)]]\<rparr>"]
    get_user_median_result
      [of "''u''" "init_state\<lparr>user_scores := [KStr ''u'' \<mapsto> []]\<rparr>"]
  by (simp add: spec_median_def)

lemma get_user_median_store:
  "user_scores s' = user_scores s \<Longrightarrow> fst (get_user_median u s') = fst (get_user_median u s)"
  by (simp add: get_user_median_def Let_def split: option.splits sum.splits)

text \<open>
  C10. For every user id, known or not, Median leaves the window store as it was: the
  lookup creates no entry and changes no window, and the only change of state is the
  increment of \<open>median_requests\<close>.
\<close>

theorem get_user_median_frame:
  "snd (get_user_median u s)
     = s\<lparr>stats := (stats s)\<lparr>median_requests := median_requests (stats s) + 1\<rparr>\<rparr>
   \<and> user_scores (snd (get_user_median u s)) = user_scores s
   \<and> dom (user_scores (snd (get_user_median u s))) = dom (user_scores s)"
  by (auto simp: get_user_median_def Let_def split: option.splits sum.splits)

theorem get_user_median_frame_witness:
  "user_scores (snd (get_user_median ''nobody'' init_state)) = Map.empty
   \<and> median_requests (stats (snd (get_user_median ''nobody'' init_state))) = 1"
  using get_user_median_frame [of "''nobody''" init_state]
  by (simp add: init_state_def)

section \<open>Properties of the statistics\<close>

text \<open>
  C5. Snapshot returns the three counters as they are, and the average latency is the sum
  of the recorded latencies divided by their number, or 0 when none is recorded.
\<close>

theorem get_stats_snapshot:
  "snap_ingest_requests (get_stats s) = ingest_requests (stats s)
   \<and> snap_events_processed (get_stats s) = events_processed (stats s)
   \<and> snap_median_requests (get_stats s) = median_requests (stats s)
   \<and> avg_ingest_latency_seconds (get_stats s) =
       (if ingest_latencies (stats s) = [] then 0
        else sum_list (ingest_latencies (stats s)) / real (length (ingest_latencies (stats s))))
   \<and> avg_ingest_latency_seconds (get_stats s) * real (length (ingest_latencies (stats s)))
       = sum_list (ingest_latencies (stats s))"
  by (simp add: get_stats_def Let_def)

theorem get_stats_snapshot_witness:
  "avg_ingest_latency_seconds
     (get_stats (init_state\<lparr>stats := (stats init_state)\<lparr>ingest_latencies := [1, 2, 6]\<rparr>\<rparr>)) = 3
   \<and> avg_ingest_latency_seconds (get_stats init_state) = 0"
  using
    get_stats_snapshot [of "init_state\<lparr>stats := (stats init_state)\<lparr>ingest_latencies := [1, 2, 6]\<rparr>\<rparr>"]
    get_stats_snapshot [of init_state]
  by (simp add: init_state_def)

section \<open>Properties of ingestion\<close>

lemma ingest_event_skip:
  "is_obj e \<Longrightarrow> \<not> processable ev e \<Longrightarrow> ingest_event ev e acc = Inr acc"
  by (cases e) (auto simp: ingest_event_def processable_def has_fields_def scores_ok_def
      split: sum.splits)

lemma ingest_event_count:
  "processable ev e \<Longrightarrow> recordable ev e \<Longrightarrow>
     \<exists>us'. ingest_event ev e acc = Inr (us', snd acc + 1)"
  by (cases e) (auto simp: ingest_event_def processable_def has_fields_def scores_ok_def
      recordable_def update_user_scores_def Let_def split: sum.splits)

lemma ingest_loop_count:
  "list_all (well_formed_item ev) batch \<Longrightarrow>
     fst (ingest_loop ev batch acc) = Inr (snd acc + int (length (filter (processable ev) batch)))"
proof (induction batch arbitrary: acc)
  case Nil
  then show ?case by simp
next
  case (Cons e es)
  from Cons.prems have rest: "list_all (well_formed_item ev) es" by simp
  from Cons.prems have "well_formed_item ev e" by simp
  then have wf: "is_obj e" "processable ev e \<Longrightarrow> recordable ev e"
    by (simp_all add: well_formed_item_def split: if_splits)
  show ?case
  proof (cases "processable ev e")
    case True
    then obtain us' where "ingest_event ev e acc = Inr (us', snd acc + 1)"
      using ingest_event_count wf by blast
    then show ?thesis using True Cons.IH [OF rest, of "(us', snd acc + 1)"] by simp
  next
    case False
    then have "ingest_event ev e acc = Inr acc" using ingest_event_skip wf by blast
    then show ?thesis using False Cons.IH [OF rest, of acc] by simp
  qed
qed

lemma ingest_event_missing:
  "dict_get kvs ''user_id'' = JNull \<or> dict_get kvs ''timestamp'' = JNull
     \<or> dict_get kvs ''features'' = JNull \<Longrightarrow>
   ingest_event ev (JObj kvs) acc = Inr acc"
  by (auto simp: ingest_event_def)

lemma ingest_event_no_model:
  "loaded_model ev = None \<Longrightarrow> ingest_event ev (JObj kvs) acc = Inr acc"
  by (simp add: ingest_event_def predict_sync_def)

lemma ingest_loop_no_model:
  "loaded_model ev = None \<Longrightarrow> list_all is_obj batch \<Longrightarrow>
     ingest_loop ev batch acc = (Inr (snd acc), fst acc)"
proof (induction batch arbitrary: acc)
  case Nil
  then show ?case by simp
next
  case (Cons e es)
  from Cons.prems obtain kvs where "e = JObj kvs" by (cases e) simp_all
  with Cons show ?case by (simp add: ingest_event_no_model)
qed

text \<open>
  C4, as the claim states it, fails: an item can have all three fields and a successful
  score and still end the request with an exception instead of a processed count. Three
  one-item batches with a working model: a timestamp that is a JSON array (\<^verbatim>\<open>int(ts)\<close>
  raises \<^verbatim>\<open>TypeError\<close> outside the \<^verbatim>\<open>try\<close>), a user id that is a JSON array (unhashable as a
  dictionary key), and an item that is a number rather than an object (no \<^verbatim>\<open>get\<close>).
\<close>

theorem ingest_raises_on_scored_item:
  "processable fixture_env
     (JObj [(''user_id'', JStr ''u1''), (''timestamp'', JList []),
            (''features'', JList [JFloat (1 / 10), JFloat (2 / 10), JFloat (3 / 10)])])
   \<and> fst (ingest fixture_env 0
        [(''events'', JList [JObj [(''user_id'', JStr ''u1''), (''timestamp'', JList []),
            (''features'', JList [JFloat (1 / 10), JFloat (2 / 10), JFloat (3 / 10)])]])] init_state)
     = Inl TypeError
   \<and> processable fixture_env
     (JObj [(''user_id'', JList []), (''timestamp'', JInt 7),
            (''features'', JList [JFloat (1 / 10), JFloat (2 / 10), JFloat (3 / 10)])])
   \<and> fst (ingest fixture_env 0
        [(''events'', JList [JObj [(''user_id'', JList []), (''timestamp'', JInt 7),
            (''features'', JList [JFloat (1 / 10), JFloat (2 / 10), JFloat (3 / 10)])]])] init_state)
     = Inl TypeError
   \<and> fst (ingest fixture_env 0 [(''events'', JList [JInt 5])] init_state) = Inl AttributeError"
  by (simp add: processable_def has_fields_def scores_ok_def fixture_env_def ingest_def
      ingest_event_def predict_sync_def update_user_scores_def dict_get_def Let_def)

text \<open>
  C4, amended. For every batch that is a list of JSON objects in which each item that has
  all three fields and scores successfully also carries a timestamp \<^verbatim>\<open>int\<close> accepts and a
  hashable user id, Ingest returns as processed count exactly the number of items that have
  all three fields and score successfully, and adds that number to \<open>events_processed\<close>. An
  object that lacks a field or whose scoring raises is skipped: the iteration raises
  nothing and leaves the windows and the count as they were.
\<close>

theorem ingest_processed_count:
  assumes "dict_get payload ''events'' = JList batch"
    and "list_all (well_formed_item ev) batch"
  shows "fst (ingest ev d payload s) = Inr (int (length (filter (processable ev) batch)))
    \<and> events_processed (stats (snd (ingest ev d payload s)))
        = events_processed (stats s) + int (length (filter (processable ev) batch))
    \<and> (\<forall>e acc. is_obj e \<and> \<not> processable ev e \<longrightarrow> ingest_event ev e acc = Inr acc)"
proof -
  obtain r us where l: "ingest_loop ev batch (user_scores s, 0) = (r, us)"
    by (cases "ingest_loop ev batch (user_scores s, 0)")
  with ingest_loop_count [OF assms(2), of "(user_scores s, 0)"]
  have "r = Inr (int (length (filter (processable ev) batch)))" by simp
  with l assms(1) show ?thesis
    by (simp add: ingest_def Let_def ingest_event_skip)
qed

theorem ingest_processed_count_witness:
  "fst (ingest fixture_env 0
        [(''events'',
          JList [JObj [(''user_id'', JStr ''u1''), (''timestamp'', JInt 7),
                       (''features'', JList [JFloat (1 / 10)])],
                 JObj [(''user_id'', JStr ''u1''), (''timestamp'', JInt 7)],
                 JObj [(''user_id'', JStr ''u1''), (''timestamp'', JInt 9),
                       (''features'', JList [])]])]
        init_state) = Inr 2"
  using ingest_processed_count
    [of "[(''events'',
          JList [JObj [(''user_id'', JStr ''u1''), (''timestamp'', JInt 7),
                       (''features'', JList [JFloat (1 / 10)])],
                 JObj [(''user_id'', JStr ''u1''), (''timestamp'', JInt 7)],
                 JObj [(''user_id'', JStr ''u1''), (''timestamp'', JInt 9),
                       (''features'', JList [])]])]"
        "[JObj [(''user_id'', JStr ''u1''), (''timestamp'', JInt 7),
                (''features'', JList [JFloat (1 / 10)])],
          JObj [(''user_id'', JStr ''u1''), (''timestamp'', JInt 7)],
          JObj [(''user_id'', JStr ''u1''), (''timestamp'', JInt 9),
                (''features'', JList [])]]"
        fixture_env 0 init_state]
  by (simp add: dict_get_def well_formed_item_def processable_def has_fields_def scores_ok_def
      recordable_def fixture_env_def predict_sync_def)

text \<open>
  C6. An event object in which \<open>user_id\<close>, \<open>timestamp\<close> or \<open>features\<close> is missing is
  discarded: its iteration changes neither the windows nor the count. An Ingest of the
  single such event returns processed 0, leaves every window and \<open>events_processed\<close> as
  they were (the call itself counts one ingest request and one latency sample), and Median
  answers afterwards what it answered before: null when the service had just started.
\<close>

theorem ingest_missing_field_discarded:
  assumes "map_of kvs ''user_id'' = None \<or> map_of kvs ''timestamp'' = None
             \<or> map_of kvs ''features'' = None"
    and "dict_get payload ''events'' = JList [JObj kvs]"
  shows "ingest_event ev (JObj kvs) acc = Inr acc
    \<and> ingest ev d payload s =
        (Inr 0, s\<lparr>stats := (stats s)\<lparr>ingest_requests := ingest_requests (stats s) + 1,
                    ingest_latencies := ingest_latencies (stats s) @ [d]\<rparr>\<rparr>)
    \<and> user_scores (snd (ingest ev d payload s)) = user_scores s
    \<and> events_processed (stats (snd (ingest ev d payload s))) = events_processed (stats s)
    \<and> fst (get_user_median u (snd (ingest ev d payload s))) = fst (get_user_median u s)
    \<and> fst (get_user_median u (snd (ingest ev d payload init_state))) = Inr None"
proof -
  from assms(1) have m: "dict_get kvs ''user_id'' = JNull \<or> dict_get kvs ''timestamp'' = JNull
     \<or> dict_get kvs ''features'' = JNull"
    by (auto simp: dict_get_def)
  have step: "ingest_event ev (JObj kvs) a = Inr a" for a
    using ingest_event_missing [OF m] .
  have run: "ingest ev d payload t =
        (Inr 0, t\<lparr>stats := (stats t)\<lparr>ingest_requests := ingest_requests (stats t) + 1,
                    ingest_latencies := ingest_latencies (stats t) @ [d]\<rparr>\<rparr>)" for t
    using assms(2) by (simp add: ingest_def Let_def step)
  have init: "fst (get_user_median u init_state) = Inr None"
    by (simp add: get_user_median_def init_state_def Let_def)
  have same: "fst (get_user_median u (snd (ingest ev d payload t))) = fst (get_user_median u t)"
    for t
    by (rule get_user_median_store) (simp add: run)
  show ?thesis
    using step [of acc] init same [of s] same [of init_state]
    by (simp add: run)
qed

theorem ingest_missing_field_discarded_witness:
  "fst (ingest fixture_env 3
     [(''events'', JList [JObj [(''user_id'', JStr ''u1''), (''timestamp'', JInt 1700000000)]])]
     init_state) = Inr 0
   \<and> user_scores (snd (ingest fixture_env 3
     [(''events'', JList [JObj [(''user_id'', JStr ''u1''), (''timestamp'', JInt 1700000000)]])]
     init_state)) = user_scores init_state
   \<and> fst (get_user_median ''u1'' (snd (ingest fixture_env 3
     [(''events'', JList [JObj [(''user_id'', JStr ''u1''), (''timestamp'', JInt 1700000000)]])]
     init_state))) = Inr None"
  using ingest_missing_field_discarded
    [of "[(''user_id'', JStr ''u1''), (''timestamp'', JInt 1700000000)]"
      "[(''events'', JList [JObj [(''user_id'', JStr ''u1''), (''timestamp'', JInt 1700000000)]])]"
      fixture_env "(Map.empty, 0)" 3 init_state "''u1''"]
  by (auto simp: dict_get_def)

text \<open>
  What holds when the load fails after \<^verbatim>\<open>MODEL_PATH\<close> is bound (a missing or unreadable
  model file, a state dict that does not fit): the service starts in the initial state
  with no model; every scoring call raises \<^verbatim>\<open>RuntimeError\<close>; every event object is skipped;
  a batch of objects returns processed 0; and afterwards Median answers the median of the
  windows as they were, and Snapshot the counters with this one ingest request and its
  latency added.
\<close>

lemma startup_load_failure:
  "startup LoadRaises parse = Inr (\<lparr>loaded_model = None, int_of_str = parse\<rparr>, init_state)"
  by (simp add: startup_def)

lemma get_user_median_value:
  "fst (get_user_median u s) =
     (case user_scores s (KStr u) of
        None \<Rightarrow> Inr None
      | Some dq \<Rightarrow> if dq = [] then Inr None else Inr (Some (spec_median (map snd dq))))"
  by (auto simp: get_user_median_def Let_def median_nonempty split: option.splits)

lemma no_model_service:
  assumes "startup LoadRaises parse = Inr (ev, s0)"
    and "list_all is_obj batch"
  shows "loaded_model ev = None \<and> s0 = init_state
    \<and> predict_sync ev features = Inl RuntimeError
    \<and> ingest_event ev (JObj kvs) acc = Inr acc
    \<and> ingest ev d [(''events'', JList batch)] s =
         (Inr 0, s\<lparr>stats := (stats s)\<lparr>ingest_requests := ingest_requests (stats s) + 1,
                     ingest_latencies := ingest_latencies (stats s) @ [d]\<rparr>\<rparr>)
    \<and> fst (get_user_median u (snd (ingest ev d [(''events'', JList batch)] s))) =
         (case user_scores s (KStr u) of
            None \<Rightarrow> Inr None
          | Some dq \<Rightarrow> if dq = [] then Inr None else Inr (Some (spec_median (map snd dq))))
    \<and> get_stats (snd (ingest ev d [(''events'', JList batch)] s)) =
         \<lparr>snap_ingest_requests = ingest_requests (stats s) + 1,
          snap_events_processed = events_processed (stats s),
          snap_median_requests = median_requests (stats s),
          avg_ingest_latency_seconds =
            (sum_list (ingest_latencies (stats s)) + d)
              / real (length (ingest_latencies (stats s)) + 1)\<rparr>"
proof -
  from assms(1) have nm: "loaded_model ev = None" and s0: "s0 = init_state"
    by (auto simp: startup_def)
  have run: "ingest ev d [(''events'', JList batch)] s =
               (Inr 0, s\<lparr>stats := (stats s)\<lparr>ingest_requests := ingest_requests (stats s) + 1,
                           ingest_latencies := ingest_latencies (stats s) @ [d]\<rparr>\<rparr>)"
    using nm assms(2) by (simp add: ingest_def dict_get_def Let_def ingest_loop_no_model)
  have med: "fst (get_user_median u (snd (ingest ev d [(''events'', JList batch)] s))) =
         (case user_scores s (KStr u) of
            None \<Rightarrow> Inr None
          | Some dq \<Rightarrow> if dq = [] then Inr None else Inr (Some (spec_median (map snd dq))))"
    by (simp add: run get_user_median_value)
  have st: "get_stats (snd (ingest ev d [(''events'', JList batch)] s)) =
         \<lparr>snap_ingest_requests = ingest_requests (stats s) + 1,
          snap_events_processed = events_processed (stats s),
          snap_median_requests = median_requests (stats s),
          avg_ingest_latency_seconds =
            (sum_list (ingest_latencies (stats s)) + d)
              / real (length (ingest_latencies (stats s)) + 1)\<rparr>"
    by (simp add: run get_stats_def Let_def)
  show ?thesis
    using nm s0 run med st
    by (simp add: ingest_event_no_model predict_sync_def)
qed

text \<open>
  C7. When the model load fails at startup the service is to start all the same, with no
  scorer. The code run on the load failure in which the import of \<^verbatim>\<open>create_model\<close> raises:
  the \<^verbatim>\<open>except Exception\<close> handler is entered and raises \<^verbatim>\<open>NameError\<close> itself, because it
  prints \<^verbatim>\<open>MODEL_PATH\<close>, which the \<^verbatim>\<open>try\<close> block binds only after the import. The exception
  leaves the module body, so there is no service, no Median and no Snapshot.
\<close>

theorem startup_import_failure_crashes:
  "startup_model ImportRaises = Inl NameError
   \<and> startup ImportRaises (int_of_str fixture_env) = Inl NameError"
  by (simp add: startup_def)

text \<open>
  C9. A payload with no \<open>events\<close> key is answered with HTTP 400 and the whole state is
  as before: no counter moves and no latency sample is added.
\<close>

theorem ingest_missing_events_rejected:
  "map_of payload ''events'' = None \<Longrightarrow>
     ingest ev d payload s = (Inl (HTTPException 400 ''Missing 'events' in request body''), s)"
  by (simp add: ingest_def dict_get_def)

theorem ingest_missing_events_rejected_witness:
  "ingest fixture_env 3 [(''batch'', JList [])] init_state
     = (Inl (HTTPException 400 ''Missing 'events' in request body''), init_state)"
  using ingest_missing_events_rejected [of "[(''batch'', JList [])]" fixture_env 3 init_state]
  by simp

end
